theory Spec2Isabelle
  imports Main
begin

section \<open>The aws_ec2_instance_state resource (internal/service/ec2/ec2_instance_state.go)\<close>

text \<open>
  The resource manages the power state of one EC2 instance. Its four lifecycle
  functions and the helper \<open>updateInstanceState\<close> are embedded below. Everything they
  call that is not part of the file (the SDK client, the waiter, the start and stop
  helpers, the lookup) is a parameter: a record of functions over an arbitrary remote
  world \<open>'w\<close>. Every call to such a function is appended to a call log, so that
  "which remote calls were issued, in which order, with which arguments" is a value
  a theorem can speak about.
\<close>

subsection \<open>Durations\<close>

text \<open>Go's \<open>time.Duration\<close> counts nanoseconds.\<close>

type_synonym Duration = int

definition Second :: Duration where
  "Second = 1000000000"

definition Minute :: Duration where
  "Minute = 60 * Second"

subsection \<open>Errors, diagnostics and log lines\<close>

text \<open>
  A Go \<open>error\<close> value is \<open>error option\<close>, \<open>None\<close> being \<open>nil\<close>. The only
  distinction the resource draws between errors is whether \<open>tfresource.NotFound\<close>
  holds of them.
\<close>

datatype error = NotFoundError string | OtherError string

text \<open>
  Modelled from the spec: \<open>tfresource.NotFound\<close> (internal/tfresource, not under src/).
  The spec's lookup returns "not-found as a distinct condition"; a nil error is not
  a not-found error.
\<close>

fun NotFound :: "error option \<Rightarrow> bool" where
  "NotFound None = False"
| "NotFound (Some (NotFoundError m)) = True"
| "NotFound (Some (OtherError m)) = False"

datatype Severity = Error | Warning

datatype service_name = EC2

datatype action_name = ErrActionReading

datatype resource_name = ResInstance | ResInstanceState

datatype summary =
    ProblemStandardMessage service_name action_name resource_name string error
  | ErrorMessage error

record Diagnostic =
  Severity :: Severity
  Summary :: summary

type_synonym Diagnostics = "Diagnostic list"

text \<open>\<open>create.AppendDiagError\<close>: one more diagnostic of severity Error.\<close>

definition AppendDiagError ::
  "Diagnostics \<Rightarrow> service_name \<Rightarrow> action_name \<Rightarrow> resource_name \<Rightarrow> string \<Rightarrow> error
   \<Rightarrow> Diagnostics" where
  "AppendDiagError diags service action resource ident gotError =
     diags @ [\<lparr>Severity = Error,
               Summary = ProblemStandardMessage service action resource ident gotError\<rparr>]"

text \<open>\<open>sdkdiag.AppendFromErr\<close>: nothing for a nil error, an Error diagnostic otherwise.\<close>

definition AppendFromErr :: "Diagnostics \<Rightarrow> error option \<Rightarrow> Diagnostics" where
  "AppendFromErr diags err =
     (case err of
        None \<Rightarrow> diags
      | Some e \<Rightarrow> diags @ [\<lparr>Severity = Error, Summary = ErrorMessage e\<rparr>])"

text \<open>\<open>diag.Diagnostics.HasError\<close>.\<close>

definition HasError :: "Diagnostics \<Rightarrow> bool" where
  "HasError diags = list_ex (\<lambda>d. Severity d = Error) diags"

datatype log_entry =
    LogNotFoundRemoveState service_name action_name resource_name string
  | LogDeleting service_name resource_name string

subsection \<open>The remote API\<close>

text \<open>\<open>awstypes.InstanceState\<close> and \<open>awstypes.Instance\<close>; a pointer field is an option.\<close>

record InstanceState =
  Name :: string

record Instance =
  InstanceId :: "string option"
  State :: "InstanceState option"

text \<open>\<open>aws.ToString\<close>: the empty string for a nil pointer.\<close>

definition ToString :: "string option \<Rightarrow> string" where
  "ToString p = (case p of None \<Rightarrow> [] | Some v \<Rightarrow> v)"

datatype call =
    WaitCall string Duration
  | StopCall string bool Duration
  | StartCall string bool Duration
  | FindCall string

text \<open>
  The collaborators of the resource. Each takes the remote world and returns its Go
  result together with the world it leaves behind. A Go result
  \<open>(*T, error)\<close> is a pair of options: both pointers may be nil as far as the types
  say. \<open>InstanceStopTimeout\<close> and \<open>InstanceStartTimeout\<close> are package constants
  declared outside the file.
\<close>

record 'w api =
  remote_wait :: "string \<Rightarrow> Duration \<Rightarrow> 'w \<Rightarrow> (Instance option \<times> error option) \<times> 'w"
  remote_stop :: "string \<Rightarrow> bool \<Rightarrow> Duration \<Rightarrow> 'w \<Rightarrow> error option \<times> 'w"
  remote_start :: "string \<Rightarrow> bool \<Rightarrow> Duration \<Rightarrow> 'w \<Rightarrow> error option \<times> 'w"
  remote_find :: "string \<Rightarrow> 'w \<Rightarrow> (InstanceState option \<times> error option) \<times> 'w"
  InstanceStopTimeout :: Duration
  InstanceStartTimeout :: Duration

record 'w sys =
  world :: 'w
  calls :: "call list"
  logs :: "log_entry list"

definition waitInstanceReady ::
  "'w api \<Rightarrow> string \<Rightarrow> Duration \<Rightarrow> 'w sys \<Rightarrow> (Instance option \<times> error option) \<times> 'w sys" where
  "waitInstanceReady a ident timeout s =
     (let (r, w) = remote_wait a ident timeout (world s)
      in (r, s\<lparr>world := w, calls := calls s @ [WaitCall ident timeout]\<rparr>))"

definition stopInstance ::
  "'w api \<Rightarrow> string \<Rightarrow> bool \<Rightarrow> Duration \<Rightarrow> 'w sys \<Rightarrow> error option \<times> 'w sys" where
  "stopInstance a ident force timeout s =
     (let (r, w) = remote_stop a ident force timeout (world s)
      in (r, s\<lparr>world := w, calls := calls s @ [StopCall ident force timeout]\<rparr>))"

definition startInstance ::
  "'w api \<Rightarrow> string \<Rightarrow> bool \<Rightarrow> Duration \<Rightarrow> 'w sys \<Rightarrow> error option \<times> 'w sys" where
  "startInstance a ident force timeout s =
     (let (r, w) = remote_start a ident force timeout (world s)
      in (r, s\<lparr>world := w, calls := calls s @ [StartCall ident force timeout]\<rparr>))"

definition findInstanceStateByID ::
  "'w api \<Rightarrow> string \<Rightarrow> 'w sys \<Rightarrow> (InstanceState option \<times> error option) \<times> 'w sys" where
  "findInstanceStateByID a ident s =
     (let (r, w) = remote_find a ident (world s)
      in (r, s\<lparr>world := w, calls := calls s @ [FindCall ident]\<rparr>))"

subsection \<open>updateInstanceState\<close>

text \<open>
  The two tests on \<open>configuredState\<close> are sequential \<open>if\<close> statements, not an
  \<open>else if\<close> chain; the model keeps them sequential.
\<close>

definition updateInstanceState ::
  "'w api \<Rightarrow> string \<Rightarrow> string \<Rightarrow> string \<Rightarrow> bool \<Rightarrow> 'w sys \<Rightarrow> error option \<times> 'w sys" where
  "updateInstanceState a ident currentState configuredState force s =
     (if currentState = configuredState then (None, s)
      else
        let (err1, s1) =
              (if configuredState = ''stopped''
               then stopInstance a ident force (InstanceStopTimeout a) s
               else (None, s))
        in (case err1 of
              Some e \<Rightarrow> (Some e, s1)
            | None \<Rightarrow>
                (let (err2, s2) =
                       (if configuredState = ''running''
                        then startInstance a ident False (InstanceStartTimeout a) s1
                        else (None, s1))
                 in (case err2 of
                       Some e \<Rightarrow> (Some e, s2)
                     | None \<Rightarrow> (None, s2)))))"

subsection \<open>The resource data\<close>

text \<open>
  \<open>schema.ResourceData\<close> belongs to the plugin SDK. The resource uses it through
  \<open>Id\<close>, \<open>SetId\<close>, \<open>IsNewResource\<close>, \<open>Get\<close> and \<open>Set\<close> on its three attributes,
  \<open>HasChange\<close> and \<open>GetChange\<close> on \<open>state\<close>, and \<open>Timeout\<close>. The record holds what
  these return: the attribute fields are what \<open>Get\<close> reads and \<open>Set\<close> writes,
  \<open>change_state\<close> is the pair (old, new) of \<open>GetChange\<close>, and \<open>Timeout\<close> is the
  timeout in force for each operation.
\<close>

datatype TimeoutKey = TimeoutCreate | TimeoutRead | TimeoutUpdate | TimeoutDelete | TimeoutDefault

record ResourceData =
  rd_Id :: string
  IsNewResource :: bool
  attr_instance_id :: string
  attr_state :: string
  attr_force :: bool
  change_state :: "string \<times> string"
  Timeout :: "TimeoutKey \<Rightarrow> Duration"

text \<open>\<open>d.HasChange\<close>: the old and the new value differ.\<close>

definition HasChange_state :: "ResourceData \<Rightarrow> bool" where
  "HasChange_state d = (fst (change_state d) \<noteq> snd (change_state d))"

text \<open>
  \<open>schema.ResourceTimeout\<close>, and the value the resource declares for it;
  \<open>schema.DefaultTimeout\<close> returns a pointer to its argument.
\<close>

record ResourceTimeout =
  Create :: "Duration option"
  Read :: "Duration option"
  Update :: "Duration option"
  Delete :: "Duration option"
  Default :: "Duration option"

definition DefaultTimeout :: "Duration \<Rightarrow> Duration option" where
  "DefaultTimeout t = Some t"

definition resourceInstanceState_Timeouts :: ResourceTimeout where
  "resourceInstanceState_Timeouts =
     \<lparr>Create = DefaultTimeout (10 * Minute),
      Read = None,
      Update = DefaultTimeout (10 * Minute),
      Delete = DefaultTimeout (1 * Minute),
      Default = None\<rparr>"

subsection \<open>The lifecycle functions\<close>

text \<open>
  A lifecycle function returns its diagnostics and leaves the resource data mutated,
  or panics on a nil pointer; the system it leaves behind is returned in both cases.
\<close>

datatype 'a outcome = Panic | Return 'a

definition resourceInstanceStateRead ::
  "'w api \<Rightarrow> ResourceData \<Rightarrow> 'w sys \<Rightarrow> (Diagnostics \<times> ResourceData) outcome \<times> 'w sys" where
  "resourceInstanceStateRead a d s =
     (let ((state, err), s1) = findInstanceStateByID a (rd_Id d) s
      in if \<not> IsNewResource d \<and> NotFound err
         then (Return ([], d\<lparr>rd_Id := []\<rparr>),
               s1\<lparr>logs := logs s1 @
                  [LogNotFoundRemoveState EC2 ErrActionReading ResInstanceState (rd_Id d)]\<rparr>)
         else (case err of
                 Some e \<Rightarrow>
                   (Return (AppendDiagError [] EC2 ErrActionReading ResInstanceState (rd_Id d) e, d),
                    s1)
               | None \<Rightarrow>
                   (case state of
                      None \<Rightarrow> (Panic, s1)
                    | Some st \<Rightarrow>
                        (Return ([], d\<lparr>attr_instance_id := rd_Id d,
                                       attr_state := Name st,
                                       attr_force := attr_force d\<rparr>),
                         s1))))"

definition resourceInstanceStateCreate ::
  "'w api \<Rightarrow> ResourceData \<Rightarrow> 'w sys \<Rightarrow> (Diagnostics \<times> ResourceData) outcome \<times> 'w sys" where
  "resourceInstanceStateCreate a d s =
     (let instanceId = attr_instance_id d;
          ((instance, instanceErr), s1) =
             waitInstanceReady a instanceId (Timeout d TimeoutCreate) s
      in (case instanceErr of
            Some e \<Rightarrow>
              (Return (AppendDiagError [] EC2 ErrActionReading ResInstance instanceId e, d), s1)
          | None \<Rightarrow>
              (case instance of
                 None \<Rightarrow> (Panic, s1)
               | Some inst \<Rightarrow>
                   (case State inst of
                      None \<Rightarrow> (Panic, s1)
                    | Some ist \<Rightarrow>
                        (let (err, s2) =
                               updateInstanceState a instanceId (Name ist) (attr_state d)
                                 (attr_force d) s1
                         in (case err of
                               Some e \<Rightarrow> (Return (AppendFromErr [] (Some e), d), s2)
                             | None \<Rightarrow>
                                 (let d1 = d\<lparr>rd_Id := attr_instance_id d\<rparr>
                                  in (case resourceInstanceStateRead a d1 s2 of
                                        (Panic, s3) \<Rightarrow> (Panic, s3)
                                      | (Return (ds, d2), s3) \<Rightarrow>
                                          (Return ([] @ ds, d2), s3)))))))))"

definition resourceInstanceStateUpdate ::
  "'w api \<Rightarrow> ResourceData \<Rightarrow> 'w sys \<Rightarrow> (Diagnostics \<times> ResourceData) outcome \<times> 'w sys" where
  "resourceInstanceStateUpdate a d s =
     (let ((instance, instanceErr), s1) =
             waitInstanceReady a (rd_Id d) (Timeout d TimeoutUpdate) s
      in (case instanceErr of
            Some e \<Rightarrow>
              (case instance of
                 None \<Rightarrow> (Panic, s1)
               | Some inst \<Rightarrow>
                   (Return (AppendDiagError [] EC2 ErrActionReading ResInstance
                              (ToString (InstanceId inst)) e, d),
                    s1))
          | None \<Rightarrow>
              (let (err, s2) =
                     (if HasChange_state d
                      then (let (o_state, n_state) = change_state d
                            in updateInstanceState a (rd_Id d) o_state n_state (attr_force d) s1)
                      else (None, s1))
               in (case err of
                     Some e \<Rightarrow> (Return (AppendFromErr [] (Some e), d), s2)
                   | None \<Rightarrow>
                       (case resourceInstanceStateRead a d s2 of
                          (Panic, s3) \<Rightarrow> (Panic, s3)
                        | (Return (ds, d2), s3) \<Rightarrow> (Return ([] @ ds, d2), s3))))))"

definition resourceInstanceStateDelete ::
  "ResourceData \<Rightarrow> 'w sys \<Rightarrow> (Diagnostics \<times> ResourceData) outcome \<times> 'w sys" where
  "resourceInstanceStateDelete d s =
     (Return ([], d), s\<lparr>logs := logs s @ [LogDeleting EC2 ResInstanceState (rd_Id d)]\<rparr>)"

subsection \<open>A remote world with one instance\<close>

text \<open>
  Modelled from the spec: \<open>waitInstanceReady\<close> (internal/service/ec2, not under src/).
  The spec describes it as "an instance-readiness waiter returning the instance's
  current named state or a not-ready/timeout error": it delivers an instance or an
  error, not both.
\<close>

datatype wait_outcome = Ready string | NotReady error

definition wait_result :: "string \<Rightarrow> wait_outcome \<Rightarrow> Instance option \<times> error option" where
  "wait_result ident r =
     (case r of
        Ready nm \<Rightarrow> (Some \<lparr>InstanceId = Some ident, State = Some \<lparr>Name = nm\<rparr>\<rparr>, None)
      | NotReady e \<Rightarrow> (None, Some e))"

text \<open>
  A concrete remote world on which the functions can be run: \<open>Some nm\<close> when the
  instance exists and is in the state named \<open>nm\<close>, \<open>None\<close> when there is no such
  instance. Stopping and starting an existing instance succeed; every call on a
  missing instance reports not-found.
\<close>

definition sim_api :: "string option api" where
  "sim_api =
     \<lparr>remote_wait = (\<lambda>ident timeout w.
        (wait_result ident
           (case w of None \<Rightarrow> NotReady (NotFoundError ident) | Some nm \<Rightarrow> Ready nm), w)),
      remote_stop = (\<lambda>ident force timeout w.
        (case w of None \<Rightarrow> (Some (NotFoundError ident), None)
                 | Some nm \<Rightarrow> (None, Some ''stopped''))),
      remote_start = (\<lambda>ident force timeout w.
        (case w of None \<Rightarrow> (Some (NotFoundError ident), None)
                 | Some nm \<Rightarrow> (None, Some ''running''))),
      remote_find = (\<lambda>ident w.
        (case w of None \<Rightarrow> ((None, Some (NotFoundError ident)), None)
                 | Some nm \<Rightarrow> ((Some \<lparr>Name = nm\<rparr>, None), w))),
      InstanceStopTimeout = 10 * Minute,
      InstanceStartTimeout = 10 * Minute\<rparr>"

definition sim_sys :: "string option \<Rightarrow> string option sys" where
  "sim_sys w = \<lparr>world = w, calls = [], logs = []\<rparr>"

definition sim_data :: "string \<Rightarrow> string \<Rightarrow> string \<Rightarrow> bool \<Rightarrow> bool \<Rightarrow> ResourceData" where
  "sim_data ident old_state new_state force is_new =
     \<lparr>rd_Id = ident,
      IsNewResource = is_new,
      attr_instance_id = ident,
      attr_state = new_state,
      attr_force = force,
      change_state = (old_state, new_state),
      Timeout = (\<lambda>k. case k of TimeoutDelete \<Rightarrow> 1 * Minute | _ \<Rightarrow> 10 * Minute)\<rparr>"

section \<open>Properties\<close>

subsection \<open>Evaluating the one-instance world\<close>

lemma sim_api_simps:
  "remote_wait sim_api ident timeout w =
     (wait_result ident (case w of None \<Rightarrow> NotReady (NotFoundError ident) | Some nm \<Rightarrow> Ready nm), w)"
  "remote_stop sim_api ident force timeout w =
     (case w of None \<Rightarrow> (Some (NotFoundError ident), None) | Some nm \<Rightarrow> (None, Some ''stopped''))"
  "remote_start sim_api ident force timeout w =
     (case w of None \<Rightarrow> (Some (NotFoundError ident), None) | Some nm \<Rightarrow> (None, Some ''running''))"
  "remote_find sim_api ident w =
     (case w of None \<Rightarrow> ((None, Some (NotFoundError ident)), None)
              | Some nm \<Rightarrow> ((Some \<lparr>Name = nm\<rparr>, None), w))"
  "InstanceStopTimeout sim_api = 600000000000"
  "InstanceStartTimeout sim_api = 600000000000"
  by (simp_all add: sim_api_def Minute_def Second_def)

text \<open>
  C1. When the current state equals the configured state, whatever the state and
  whatever the force flag, \<open>updateInstanceState\<close> returns a nil error and leaves the
  system as it found it: the remote world, the call log and the log lines are
  unchanged, so no stop or start call was issued.
\<close>

theorem updateInstanceState_same_state_noop:
  "updateInstanceState a ident S S force s = (None, s)"
  by (simp add: updateInstanceState_def)

text \<open>
  C2. When the configured state is "stopped" and the current state is anything else,
  \<open>updateInstanceState\<close> issues exactly one remote call, a stop call carrying the
  caller's force flag and the stop timeout, and its own result is the result of that
  call: nil when the stop succeeds, the stop's error when it fails.
\<close>

theorem updateInstanceState_stop:
  assumes "currentState \<noteq> ''stopped''"
  shows "updateInstanceState a ident currentState ''stopped'' force s =
           (fst (remote_stop a ident force (InstanceStopTimeout a) (world s)),
            s\<lparr>world := snd (remote_stop a ident force (InstanceStopTimeout a) (world s)),
              calls := calls s @ [StopCall ident force (InstanceStopTimeout a)]\<rparr>)"
  using assms
  by (simp add: updateInstanceState_def stopInstance_def case_prod_beta split: option.splits)

theorem updateInstanceState_stop_witness:
  "''running'' \<noteq> ''stopped'' \<and>
   updateInstanceState sim_api ''i-1'' ''running'' ''stopped'' True (sim_sys (Some ''running'')) =
     (None, \<lparr>world = Some ''stopped'', calls = [StopCall ''i-1'' True 600000000000], logs = []\<rparr>) \<and>
   updateInstanceState sim_api ''i-1'' ''running'' ''stopped'' True (sim_sys None) =
     (Some (NotFoundError ''i-1''),
      \<lparr>world = None, calls = [StopCall ''i-1'' True 600000000000], logs = []\<rparr>)"
  using updateInstanceState_stop [of "''running''" sim_api "''i-1''" True "sim_sys (Some ''running'')"]
        updateInstanceState_stop [of "''running''" sim_api "''i-1''" True "sim_sys None"]
  by (simp add: sim_api_simps sim_sys_def)

text \<open>
  C3. When the configured state is "running" and the current state is anything else,
  \<open>updateInstanceState\<close> issues exactly one remote call, a start call whose force
  argument is \<open>False\<close> whatever the caller's force flag, and its own result is the
  result of that call.
\<close>

theorem updateInstanceState_start:
  assumes "currentState \<noteq> ''running''"
  shows "updateInstanceState a ident currentState ''running'' force s =
           (fst (remote_start a ident False (InstanceStartTimeout a) (world s)),
            s\<lparr>world := snd (remote_start a ident False (InstanceStartTimeout a) (world s)),
              calls := calls s @ [StartCall ident False (InstanceStartTimeout a)]\<rparr>)"
  using assms
  by (simp add: updateInstanceState_def startInstance_def case_prod_beta split: option.splits)

theorem updateInstanceState_start_witness:
  "''stopped'' \<noteq> ''running'' \<and>
   updateInstanceState sim_api ''i-1'' ''stopped'' ''running'' True (sim_sys (Some ''stopped'')) =
     (None, \<lparr>world = Some ''running'', calls = [StartCall ''i-1'' False 600000000000], logs = []\<rparr>) \<and>
   updateInstanceState sim_api ''i-1'' ''stopped'' ''running'' True (sim_sys None) =
     (Some (NotFoundError ''i-1''),
      \<lparr>world = None, calls = [StartCall ''i-1'' False 600000000000], logs = []\<rparr>)"
  using updateInstanceState_start [of "''stopped''" sim_api "''i-1''" True "sim_sys (Some ''stopped'')"]
        updateInstanceState_start [of "''stopped''" sim_api "''i-1''" True "sim_sys None"]
  by (simp add: sim_api_simps sim_sys_def)

text \<open>
  C4. \<open>updateInstanceState\<close> with current state "pending" and configured state
  "running" returns the same error and leaves the same system (hence the same call
  log) as with current state "stopped"; more generally, any two current states that
  both differ from the configured state give the same result.
\<close>

theorem updateInstanceState_current_state_only_compared:
  "updateInstanceState a ident ''pending'' ''running'' force s =
     updateInstanceState a ident ''stopped'' ''running'' force s \<and>
   (c1 \<noteq> configuredState \<and> c2 \<noteq> configuredState \<longrightarrow>
      updateInstanceState a ident c1 configuredState force s =
        updateInstanceState a ident c2 configuredState force s)"
  by (simp add: updateInstanceState_def)

theorem updateInstanceState_current_state_only_compared_witness:
  "''pending'' \<noteq> ''running'' \<and> ''stopped'' \<noteq> ''running'' \<and>
   updateInstanceState sim_api ''i-1'' ''pending'' ''running'' True (sim_sys (Some ''pending'')) =
     updateInstanceState sim_api ''i-1'' ''stopped'' ''running'' True (sim_sys (Some ''pending'')) \<and>
   updateInstanceState sim_api ''i-1'' ''stopped'' ''running'' True (sim_sys (Some ''pending'')) =
     (None, \<lparr>world = Some ''running'', calls = [StartCall ''i-1'' False 600000000000], logs = []\<rparr>)"
  using updateInstanceState_current_state_only_compared
          [of sim_api "''i-1''" True "sim_sys (Some ''pending'')" "''pending''" "''running''" "''stopped''"]
  by (simp add: updateInstanceState_def startInstance_def sim_api_simps sim_sys_def)

subsection \<open>The call log of the lifecycle functions\<close>

lemma sim_data_simps:
  "rd_Id (sim_data ident old_state new_state force is_new) = ident"
  "IsNewResource (sim_data ident old_state new_state force is_new) = is_new"
  "attr_instance_id (sim_data ident old_state new_state force is_new) = ident"
  "attr_state (sim_data ident old_state new_state force is_new) = new_state"
  "attr_force (sim_data ident old_state new_state force is_new) = force"
  "change_state (sim_data ident old_state new_state force is_new) = (old_state, new_state)"
  "Timeout (sim_data ident old_state new_state force is_new) TimeoutCreate = 600000000000"
  "Timeout (sim_data ident old_state new_state force is_new) TimeoutUpdate = 600000000000"
  by (simp_all add: sim_data_def Minute_def Second_def)

lemma calls_findInstanceStateByID:
  "calls (snd (findInstanceStateByID a ident s)) = calls s @ [FindCall ident]"
  by (simp add: findInstanceStateByID_def case_prod_beta)

lemma calls_waitInstanceReady:
  "calls (snd (waitInstanceReady a ident timeout s)) = calls s @ [WaitCall ident timeout]"
  by (simp add: waitInstanceReady_def case_prod_beta)

lemma world_waitInstanceReady:
  "fst (waitInstanceReady a ident timeout s) = fst (remote_wait a ident timeout (world s))"
  by (simp add: waitInstanceReady_def case_prod_beta)

lemma calls_resourceInstanceStateRead:
  "calls (snd (resourceInstanceStateRead a d s)) = calls s @ [FindCall (rd_Id d)]"
  by (simp add: resourceInstanceStateRead_def case_prod_beta calls_findInstanceStateByID
      split: option.splits)

lemma calls_updateInstanceState:
  "\<exists>xs. calls (snd (updateInstanceState a ident c g force s)) = calls s @ xs"
  by (simp add: updateInstanceState_def stopInstance_def startInstance_def case_prod_beta
      split: option.splits)

lemma snd_append_read:
  "snd (case r of (Panic, s3) \<Rightarrow> (Panic, s3)
               | (Return (ds, d2), s3) \<Rightarrow> (Return ([] @ ds, d2), s3)) = snd r"
  by (simp split: prod.splits outcome.splits)

text \<open>
  C5, as stated, fails: Update waits for the instance to be ready before it looks at
  the change of \<open>state\<close>, and that wait is a remote call. On a running instance whose
  desired state is unchanged, the call log after Update is the wait followed by the
  lookup of the final Read.
\<close>

theorem resourceInstanceStateUpdate_unchanged_counterexample:
  "\<not> HasChange_state (sim_data ''i-1'' ''running'' ''running'' False False) \<and>
   calls (snd (resourceInstanceStateUpdate sim_api
                 (sim_data ''i-1'' ''running'' ''running'' False False)
                 (sim_sys (Some ''running'')))) =
     [WaitCall ''i-1'' 600000000000, FindCall ''i-1'']"
  by (simp add: resourceInstanceStateUpdate_def resourceInstanceStateRead_def
      waitInstanceReady_def findInstanceStateByID_def HasChange_state_def wait_result_def
      sim_api_simps sim_data_simps sim_sys_def)

text \<open>
  C5, amended. When the desired \<open>state\<close> attribute has not changed, Update issues no
  stop and no start call. It issues exactly one readiness wait, for the resource's id
  with the Update timeout, and nothing else before the final Read; the Read's lookup
  follows exactly when the wait returned no error.
\<close>

theorem resourceInstanceStateUpdate_unchanged_calls:
  assumes "\<not> HasChange_state d"
  shows "calls (snd (resourceInstanceStateUpdate a d s)) =
           calls s @ WaitCall (rd_Id d) (Timeout d TimeoutUpdate) #
             (if snd (fst (remote_wait a (rd_Id d) (Timeout d TimeoutUpdate) (world s))) = None
              then [FindCall (rd_Id d)] else [])"
proof -
  obtain inst ierr s1 where w: "waitInstanceReady a (rd_Id d) (Timeout d TimeoutUpdate) s = ((inst, ierr), s1)"
    by (metis prod.exhaust)
  have c1: "calls s1 = calls s @ [WaitCall (rd_Id d) (Timeout d TimeoutUpdate)]"
    using calls_waitInstanceReady [of a "rd_Id d" "Timeout d TimeoutUpdate" s] w by simp
  have e1: "snd (fst (remote_wait a (rd_Id d) (Timeout d TimeoutUpdate) (world s))) = ierr"
  proof -
    have "fst (remote_wait a (rd_Id d) (Timeout d TimeoutUpdate) (world s)) = (inst, ierr)"
      using world_waitInstanceReady [of a "rd_Id d" "Timeout d TimeoutUpdate" s]
      by (simp only: w fst_conv)
    then show ?thesis by (simp only: snd_conv)
  qed
  show ?thesis
  proof (cases ierr)
    case None
    then show ?thesis
      using assms w c1 e1 calls_resourceInstanceStateRead [of a d s1]
      by (simp add: resourceInstanceStateUpdate_def snd_append_read)
  next
    case (Some e)
    then show ?thesis
      using w c1 e1
      by (simp add: resourceInstanceStateUpdate_def split: option.splits)
  qed
qed

theorem resourceInstanceStateUpdate_unchanged_calls_witness:
  "\<not> HasChange_state (sim_data ''i-1'' ''stopped'' ''stopped'' True False) \<and>
   calls (snd (resourceInstanceStateUpdate sim_api
                 (sim_data ''i-1'' ''stopped'' ''stopped'' True False)
                 (sim_sys (Some ''stopped'')))) =
     [WaitCall ''i-1'' 600000000000, FindCall ''i-1''] \<and>
   calls (snd (resourceInstanceStateUpdate sim_api
                 (sim_data ''i-1'' ''stopped'' ''stopped'' True False)
                 (sim_sys None))) =
     [WaitCall ''i-1'' 600000000000]"
  using resourceInstanceStateUpdate_unchanged_calls
          [of "sim_data ''i-1'' ''stopped'' ''stopped'' True False" sim_api "sim_sys (Some ''stopped'')"]
        resourceInstanceStateUpdate_unchanged_calls
          [of "sim_data ''i-1'' ''stopped'' ''stopped'' True False" sim_api "sim_sys None"]
  by (simp add: HasChange_state_def wait_result_def sim_api_simps sim_data_simps sim_sys_def)

lemma fst_findInstanceStateByID:
  "fst (findInstanceStateByID a ident s) = fst (remote_find a ident (world s))"
  by (simp add: findInstanceStateByID_def case_prod_beta)

lemma HasError_AppendDiagError:
  "HasError (AppendDiagError diags service action resource ident e)"
  by (simp add: HasError_def AppendDiagError_def)

text \<open>
  C6. When the lookup of Read returns an error: if the resource is not new and the
  error is a not-found error, Read clears the resource's id and returns no
  diagnostic; in every other case Read returns the resource data untouched together
  with diagnostics that contain an error.
\<close>

theorem resourceInstanceStateRead_lookup_error:
  assumes "snd (fst (remote_find a (rd_Id d) (world s))) = Some e"
  shows "(\<not> IsNewResource d \<and> NotFound (Some e) \<longrightarrow>
            fst (resourceInstanceStateRead a d s) = Return ([], d\<lparr>rd_Id := []\<rparr>)) \<and>
         (\<not> (\<not> IsNewResource d \<and> NotFound (Some e)) \<longrightarrow>
            (\<exists>diags. fst (resourceInstanceStateRead a d s) = Return (diags, d) \<and>
                     HasError diags))"
proof -
  obtain st s1 where f: "findInstanceStateByID a (rd_Id d) s = ((st, Some e), s1)"
    using assms fst_findInstanceStateByID [of a "rd_Id d" s]
    by (metis prod.collapse)
  show ?thesis
    using f by (simp add: resourceInstanceStateRead_def HasError_AppendDiagError)
qed

theorem resourceInstanceStateRead_lookup_error_witness:
  "snd (fst (remote_find sim_api (rd_Id (sim_data ''i-1'' ''running'' ''running'' False False)) None)) =
     Some (NotFoundError ''i-1'') \<and>
   fst (resourceInstanceStateRead sim_api (sim_data ''i-1'' ''running'' ''running'' False False)
          (sim_sys None)) =
     Return ([], (sim_data ''i-1'' ''running'' ''running'' False False)\<lparr>rd_Id := []\<rparr>) \<and>
   fst (resourceInstanceStateRead sim_api (sim_data ''i-1'' ''running'' ''running'' False True)
          (sim_sys None)) =
     Return ([\<lparr>Severity = Error,
               Summary = ProblemStandardMessage EC2 ErrActionReading ResInstanceState ''i-1''
                           (NotFoundError ''i-1'')\<rparr>],
             sim_data ''i-1'' ''running'' ''running'' False True)"
  using resourceInstanceStateRead_lookup_error
          [of sim_api "sim_data ''i-1'' ''running'' ''running'' False False" "sim_sys None"
              "NotFoundError ''i-1''"]
        resourceInstanceStateRead_lookup_error
          [of sim_api "sim_data ''i-1'' ''running'' ''running'' False True" "sim_sys None"
              "NotFoundError ''i-1''"]
  by (simp add: resourceInstanceStateRead_def findInstanceStateByID_def AppendDiagError_def
      sim_api_simps sim_data_simps sim_sys_def)

text \<open>
  C7. Delete returns the empty diagnostics and the resource data as it was, for every
  resource and every system; the call log and the remote world are unchanged, so no
  remote call was issued and the instance keeps its power state.
\<close>

theorem resourceInstanceStateDelete_no_remote_call:
  "fst (resourceInstanceStateDelete d s) = Return ([], d) \<and>
   calls (snd (resourceInstanceStateDelete d s)) = calls s \<and>
   world (snd (resourceInstanceStateDelete d s)) = world s"
  by (simp add: resourceInstanceStateDelete_def)

text \<open>
  C8. When the lookup of Read finds the instance (a state and a nil error), Read
  returns no diagnostic and the resource data differ from the ones it was given in
  \<open>instance_id\<close>, set to the id that was looked up, and in \<open>state\<close>, set to the name
  of the observed state, and in nothing else; \<open>force\<close> in particular keeps its stored
  value.
\<close>

theorem resourceInstanceStateRead_found:
  assumes "fst (remote_find a (rd_Id d) (world s)) = (Some ist, None)"
  shows "fst (resourceInstanceStateRead a d s) =
           Return ([], d\<lparr>attr_instance_id := rd_Id d, attr_state := Name ist\<rparr>) \<and>
         attr_force (d\<lparr>attr_instance_id := rd_Id d, attr_state := Name ist\<rparr>) = attr_force d"
proof -
  obtain s1 where f: "findInstanceStateByID a (rd_Id d) s = ((Some ist, None), s1)"
    using assms fst_findInstanceStateByID [of a "rd_Id d" s]
    by (metis prod.collapse)
  show ?thesis
    using f by (simp add: resourceInstanceStateRead_def)
qed

theorem resourceInstanceStateRead_found_witness:
  "fst (remote_find sim_api
          (rd_Id ((sim_data ''i-1'' ''running'' ''running'' True False)\<lparr>attr_instance_id := ''i-0''\<rparr>))
          (world (sim_sys (Some ''stopped'')))) = (Some \<lparr>Name = ''stopped''\<rparr>, None) \<and>
   fst (resourceInstanceStateRead sim_api
          ((sim_data ''i-1'' ''running'' ''running'' True False)\<lparr>attr_instance_id := ''i-0''\<rparr>)
          (sim_sys (Some ''stopped''))) =
     Return ([], (sim_data ''i-1'' ''running'' ''running'' True False)
                   \<lparr>attr_instance_id := ''i-1'', attr_state := ''stopped''\<rparr>)"
  using resourceInstanceStateRead_found
          [of sim_api "(sim_data ''i-1'' ''running'' ''running'' True False)\<lparr>attr_instance_id := ''i-0''\<rparr>"
              "sim_sys (Some ''stopped'')" "\<lparr>Name = ''stopped''\<rparr>"]
  by (simp add: sim_api_simps sim_data_simps sim_sys_def)

lemma calls_resourceInstanceStateCreate:
  "\<exists>rest. calls (snd (resourceInstanceStateCreate a d s)) =
            calls s @ WaitCall (attr_instance_id d) (Timeout d TimeoutCreate) # rest"
proof -
  let ?i = "attr_instance_id d"
  let ?t = "Timeout d TimeoutCreate"
  obtain inst ierr s1 where w: "waitInstanceReady a ?i ?t s = ((inst, ierr), s1)"
    by (metis prod.exhaust)
  have c1: "calls s1 = calls s @ [WaitCall ?i ?t]"
    using calls_waitInstanceReady [of a ?i ?t s] w by simp
  consider (failed) e where "ierr = Some e"
    | (nil_instance) "ierr = None" "inst = None"
    | (nil_state) i where "ierr = None" "inst = Some i" "State i = None"
    | (ready) i ist where "ierr = None" "inst = Some i" "State i = Some ist"
    by (cases ierr; cases inst) auto
  then show ?thesis
  proof cases
    case failed
    then show ?thesis using w c1 by (simp add: resourceInstanceStateCreate_def Let_def)
  next
    case nil_instance
    then show ?thesis using w c1 by (simp add: resourceInstanceStateCreate_def Let_def)
  next
    case nil_state
    then show ?thesis using w c1 by (simp add: resourceInstanceStateCreate_def Let_def)
  next
    case ready
    obtain err s2 where
      u: "updateInstanceState a ?i (Name ist) (attr_state d) (attr_force d) s1 = (err, s2)"
      by (metis prod.exhaust)
    obtain xs where c2: "calls s2 = calls s1 @ xs"
      using calls_updateInstanceState [of a ?i "Name ist" "attr_state d" "attr_force d" s1] u
      by auto
    show ?thesis
    proof (cases err)
      case None
      then show ?thesis
        using ready w u c1 c2
        by (simp add: resourceInstanceStateCreate_def Let_def snd_append_read
            calls_resourceInstanceStateRead)
    next
      case (Some e)
      then show ?thesis
        using ready w u c1 c2 by (simp add: resourceInstanceStateCreate_def Let_def)
    qed
  qed
qed

lemma calls_resourceInstanceStateUpdate:
  "\<exists>rest. calls (snd (resourceInstanceStateUpdate a d s)) =
            calls s @ WaitCall (rd_Id d) (Timeout d TimeoutUpdate) # rest"
proof -
  let ?i = "rd_Id d"
  let ?t = "Timeout d TimeoutUpdate"
  obtain inst ierr s1 where w: "waitInstanceReady a ?i ?t s = ((inst, ierr), s1)"
    by (metis prod.exhaust)
  have c1: "calls s1 = calls s @ [WaitCall ?i ?t]"
    using calls_waitInstanceReady [of a ?i ?t s] w by simp
  show ?thesis
  proof (cases ierr)
    case (Some e)
    then show ?thesis
      using w c1 by (simp add: resourceInstanceStateUpdate_def split: option.splits)
  next
    case None
    obtain err s2 where
      u: "(if HasChange_state d
           then (let (o_state, n_state) = change_state d
                 in updateInstanceState a ?i o_state n_state (attr_force d) s1)
           else (None, s1)) = (err, s2)"
      by (metis prod.exhaust)
    have "\<exists>xs. calls s2 = calls s1 @ xs"
    proof (cases "HasChange_state d")
      case True
      then show ?thesis
        using u calls_updateInstanceState
                  [of a ?i "fst (change_state d)" "snd (change_state d)" "attr_force d" s1]
        by (simp add: case_prod_beta)
    next
      case False
      then show ?thesis using u by simp
    qed
    then obtain xs where c2: "calls s2 = calls s1 @ xs" by blast
    show ?thesis
    proof (cases err)
      case None
      then show ?thesis
        using \<open>ierr = None\<close> w u c1 c2
        by (simp add: resourceInstanceStateUpdate_def snd_append_read
            calls_resourceInstanceStateRead)
    next
      case (Some e)
      then show ?thesis
        using \<open>ierr = None\<close> w u c1 c2 by (simp add: resourceInstanceStateUpdate_def)
    qed
  qed
qed

text \<open>
  C9. The resource declares the default timeouts 10 minutes for Create, 10 minutes
  for Update and 1 minute for Delete (a minute being 60000000000 nanoseconds). The
  first remote call of Create is the readiness wait with \<open>d.Timeout(TimeoutCreate)\<close>,
  and the first remote call of Update is the readiness wait with
  \<open>d.Timeout(TimeoutUpdate)\<close>.
\<close>

theorem resourceInstanceState_timeouts:
  "Create resourceInstanceState_Timeouts = Some (10 * Minute) \<and>
   Update resourceInstanceState_Timeouts = Some (10 * Minute) \<and>
   Delete resourceInstanceState_Timeouts = Some (1 * Minute) \<and>
   Minute = 60000000000 \<and>
   (\<exists>rest. calls (snd (resourceInstanceStateCreate a d s)) =
             calls s @ WaitCall (attr_instance_id d) (Timeout d TimeoutCreate) # rest) \<and>
   (\<exists>rest. calls (snd (resourceInstanceStateUpdate a d s)) =
             calls s @ WaitCall (rd_Id d) (Timeout d TimeoutUpdate) # rest)"
  using calls_resourceInstanceStateCreate [of a d s] calls_resourceInstanceStateUpdate [of a d s]
  by (simp add: resourceInstanceState_Timeouts_def DefaultTimeout_def Minute_def Second_def)

text \<open>
  C10. When the readiness wait fails and hands back a nil instance together with its
  error, as it does for a missing instance in the one-instance world, Update
  dereferences the nil instance to build its diagnostic and panics. Create, on the
  same failure, builds the diagnostic from the instance id it read from the resource
  data and returns it.
\<close>

theorem resourceInstanceStateUpdate_wait_error_panics:
  "fst (resourceInstanceStateUpdate sim_api (sim_data ''i-1'' ''running'' ''stopped'' False False)
          (sim_sys None)) = Panic \<and>
   fst (resourceInstanceStateCreate sim_api (sim_data ''i-1'' ''running'' ''stopped'' False True)
          (sim_sys None)) =
     Return ([\<lparr>Severity = Error,
               Summary = ProblemStandardMessage EC2 ErrActionReading ResInstance ''i-1''
                           (NotFoundError ''i-1'')\<rparr>],
             sim_data ''i-1'' ''running'' ''stopped'' False True)"
  by (simp add: resourceInstanceStateUpdate_def resourceInstanceStateCreate_def
      waitInstanceReady_def wait_result_def AppendDiagError_def Let_def
      sim_api_simps sim_data_simps sim_sys_def)

end
